theory Spec2Isabelle
  imports Main "HOL-Library.Sublist"
begin

section \<open>Run-time values\<close>

text \<open>
  An optional parameter \<^verbatim>\<open>lifetime?: number\<close> holds \<^verbatim>\<open>undefined\<close> when the caller omits
  it or passes \<^verbatim>\<open>undefined\<close>; JavaScript callers can also pass \<^verbatim>\<open>null\<close>. The operator
  \<^verbatim>\<open>a ?? b\<close> yields \<^verbatim>\<open>b\<close> exactly for these two values of \<^verbatim>\<open>a\<close>.
\<close>

datatype 'a nullish = Undefined | Null | Value 'a

definition nullish_coalesce :: "'a nullish \<Rightarrow> 'a \<Rightarrow> 'a" where
  "nullish_coalesce a b = (case a of Undefined \<Rightarrow> b | Null \<Rightarrow> b | Value v \<Rightarrow> v)"

text \<open>
  The values that JSON decoding yields and that the client handles: the object literals
  it builds as request payloads, the decoded body of a response, and what reading a
  property of that body gives. A \<^verbatim>\<open>number\<close> that is a user id or a count of seconds is
  an integer. An object is the list of its properties; where a key occurs twice the
  later entry counts, as in an object literal and in \<^verbatim>\<open>JSON.parse\<close>.
\<close>

datatype js_value =
    JUndefined
  | JNull
  | JBoolean bool
  | JNumber int
  | JString string
  | JArray "js_value list"
  | JObject "(string \<times> js_value) list"

text \<open>
  \<^verbatim>\<open>`${n}`\<close> for a number that is an HTTP status code: its decimal digits.
\<close>

fun digits :: "nat \<Rightarrow> string" where
  "digits n = (if n < 10 then [''0123456789'' ! n]
               else digits (n div 10) @ [''0123456789'' ! (n mod 10)])"

declare digits.simps [simp del]

definition Number_toString :: "nat \<Rightarrow> string" where
  "Number_toString n = digits n"

section \<open>The HTTP library, as the client uses it\<close>

text \<open>
  \<^verbatim>\<open>AxiosResponse<R>\<close>: the fields the client reads. The type \<^verbatim>\<open>R\<close> is a cast that nothing
  checks at run time: the decoded body \<^verbatim>\<open>data\<close> is whatever value the service sent.
\<close>

record AxiosResponse =
  status :: nat
  statusText :: string
  data :: js_value

text \<open>
  What a \<^verbatim>\<open>catch\<close> can receive from \<^verbatim>\<open>await axios.post(...)\<close> or from the \<^verbatim>\<open>throw\<close> in the
  \<^verbatim>\<open>try\<close> block, and what a caller can receive from a method: an \<^verbatim>\<open>AxiosError\<close> with its
  \<^verbatim>\<open>name\<close>, its \<^verbatim>\<open>message\<close> and its optional \<^verbatim>\<open>response\<close>, or an \<^verbatim>\<open>Error\<close> object of another
  class with its \<^verbatim>\<open>name\<close> and \<^verbatim>\<open>message\<close>. An \<^verbatim>\<open>AxiosError\<close> made from a failure of the
  transport keeps the name of that failure, \<^verbatim>\<open>Error\<close>.
\<close>

datatype js_error =
    AxiosError string string "AxiosResponse option"
  | JsError string string

definition new_Error :: "string \<Rightarrow> js_error" where
  "new_Error msg = JsError ''Error'' msg"

text \<open>\<^verbatim>\<open>`${error}`\<close>: \<^verbatim>\<open>Error.prototype.toString\<close>, from the name and the message.\<close>

definition Error_toString :: "string \<Rightarrow> string \<Rightarrow> string" where
  "Error_toString nm msg =
     (if nm = [] then msg else if msg = [] then nm else nm @ '': '' @ msg)"

fun toString :: "js_error \<Rightarrow> string" where
  "toString (JsError nm msg) = Error_toString nm msg"
| "toString (AxiosError nm msg resp) = Error_toString nm msg"

text \<open>
  Reading the property \<^verbatim>\<open>key\<close> of a decoded body, \<^verbatim>\<open>response.key\<close>, for a key that no
  built-in prototype defines (\<^verbatim>\<open>user_id\<close>, \<^verbatim>\<open>token\<close>): \<^verbatim>\<open>null\<close> and \<^verbatim>\<open>undefined\<close> have no
  properties and the read throws a \<^verbatim>\<open>TypeError\<close> (its message in the wording of Node.js);
  an object gives the property or \<^verbatim>\<open>undefined\<close>; any other value gives \<^verbatim>\<open>undefined\<close>.
\<close>

definition cannot_read :: "string \<Rightarrow> string \<Rightarrow> js_error" where
  "cannot_read what key =
     JsError ''TypeError''
       (''Cannot read properties of '' @ what @ '' (reading '' @ [CHR 0x27] @ key
          @ [CHR 0x27] @ '')'')"

fun get_property :: "js_value \<Rightarrow> string \<Rightarrow> js_error + js_value" where
  "get_property JUndefined key = Inl (cannot_read ''undefined'' key)"
| "get_property JNull key = Inl (cannot_read ''null'' key)"
| "get_property (JObject props) key =
     Inr (case map_of (rev props) key of Some v \<Rightarrow> v | None \<Rightarrow> JUndefined)"
| "get_property v key = Inr JUndefined"

text \<open>\<^verbatim>\<open>`${x?.f}`\<close> renders a missing value as the text \<^verbatim>\<open>undefined\<close>.\<close>

definition template_optional :: "string option \<Rightarrow> string" where
  "template_optional v = (case v of None \<Rightarrow> ''undefined'' | Some s \<Rightarrow> s)"

datatype http_verb = GET | POST | PUT | DELETE

record request =
  http_method :: http_verb
  url :: string
  headers :: "(string \<times> string) list"
  body :: js_value

datatype outcome =
    Resolved AxiosResponse
  | Rejected js_error

text \<open>
  The service and the network between: what one exchange yields, given the requests
  made before it and the request itself.
\<close>

type_synonym network = "request list \<Rightarrow> request \<Rightarrow> outcome"

section \<open>The client\<close>

record SigpairAdmin =
  baseUrl :: string
  adminToken :: string

definition constructor :: "string \<Rightarrow> string \<Rightarrow> SigpairAdmin" where
  "constructor b t = \<lparr>baseUrl = b, adminToken = t\<rparr>"

text \<open>
  The state that a method call reads and may change: the client object and the
  requests handed to \<^verbatim>\<open>axios.post\<close> so far, oldest first.
\<close>

record world =
  client :: SigpairAdmin
  sent :: "request list"

definition axios_post ::
  "network \<Rightarrow> string \<Rightarrow> js_value \<Rightarrow> (string \<times> string) list \<Rightarrow> world
     \<Rightarrow> outcome \<times> world" where
  "axios_post net u payload hs w =
     (let req = \<lparr>http_method = POST, url = u, headers = hs, body = payload\<rparr>
      in (net (sent w) req, w\<lparr>sent := sent w @ [req]\<rparr>))"

definition createPostRequest ::
  "string \<Rightarrow> world \<Rightarrow> (string \<times> (string \<times> string) list) \<times> world" where
  "createPostRequest route w =
     (let u = baseUrl (client w) @ ''/'' @ route;
          hs = [(''Content-Type'', ''application/json''),
                (''Authorization'', ''Bearer '' @ adminToken (client w))]
      in ((u, hs), w))"

text \<open>The \<^verbatim>\<open>try\<close> block of \<^verbatim>\<open>handleRequest\<close>, after the \<^verbatim>\<open>await\<close>.\<close>

definition try_block :: "outcome \<Rightarrow> js_error + js_value" where
  "try_block out =
     (case out of
        Rejected err \<Rightarrow> Inl err
      | Resolved response \<Rightarrow>
          if status response = 200 then Inr (data response)
          else Inl (new_Error (''Failed to make request, error:'' @ statusText response
                      @ '', code: '' @ Number_toString (status response))))"

text \<open>The \<^verbatim>\<open>catch\<close> block: the error it throws.\<close>

definition catch_block :: "js_error \<Rightarrow> js_error" where
  "catch_block error =
     (case error of
        AxiosError nm msg resp \<Rightarrow>
          new_Error (''Failed to make request, error:''
            @ template_optional (map_option statusText resp)
            @ '', code: '' @ template_optional (map_option (\<lambda>r. Number_toString (status r)) resp))
      | JsError nm msg \<Rightarrow>
          new_Error (''Failed to make request, error:'' @ toString error))"

definition handleRequest ::
  "network \<Rightarrow> string \<Rightarrow> (string \<times> string) list \<Rightarrow> js_value \<Rightarrow> world
     \<Rightarrow> (js_error + js_value) \<times> world" where
  "handleRequest net u hs payload w =
     (case axios_post net u payload hs w of
        (out, w') \<Rightarrow>
          (case try_block out of
             Inr r \<Rightarrow> (Inr r, w')
           | Inl error \<Rightarrow> (Inl (catch_block error), w')))"

text \<open>
  The methods. The read of \<^verbatim>\<open>response.user_id\<close> and of \<^verbatim>\<open>response.token\<close> comes after
  \<^verbatim>\<open>handleRequest\<close> has returned, outside its \<^verbatim>\<open>try\<close>: what the read throws reaches the
  caller as it is, and what it yields is returned whatever it is.
\<close>

definition createUser ::
  "network \<Rightarrow> string \<Rightarrow> world \<Rightarrow> (js_error + js_value) \<times> world" where
  "createUser net name w =
     (case createPostRequest ''v1/create-user'' w of
        ((u, hs), w1) \<Rightarrow>
          (let createPayload = JObject [(''name'', JString name)]
           in case handleRequest net u hs createPayload w1 of
                (Inl e, w2) \<Rightarrow> (Inl e, w2)
              | (Inr response, w2) \<Rightarrow> (get_property response ''user_id'', w2)))"

definition genUserToken ::
  "network \<Rightarrow> int \<Rightarrow> int nullish \<Rightarrow> world \<Rightarrow> (js_error + js_value) \<times> world" where
  "genUserToken net userId lifetime w =
     (case createPostRequest ''v1/user-token'' w of
        ((u, hs), w1) \<Rightarrow>
          (let createPayload = JObject [(''user_id'', JNumber userId),
                                        (''lifetime'', JNumber (nullish_coalesce lifetime 3600))]
           in case handleRequest net u hs createPayload w1 of
                (Inl e, w2) \<Rightarrow> (Inl e, w2)
              | (Inr response, w2) \<Rightarrow> (get_property response ''token'', w2)))"

text \<open>
  The client that \<^verbatim>\<open>main\<close> constructs, before any call.
\<close>

definition main_world :: world where
  "main_world =
     \<lparr>client = constructor ''http://localhost:8080''
                 ''1ec3804afc23258f767b9d38825dc7ab0a2ea44ef4adf3254e4d7c6059c3b55a'',
      sent = []\<rparr>"

text \<open>Services for the examples: one that answers every request alike.\<close>

definition always :: "outcome \<Rightarrow> network" where
  "always out log req = out"

definition user_10000 :: outcome where
  "user_10000 =
     Resolved \<lparr>status = 200, statusText = ''OK'',
               data = JObject [(''user_id'', JNumber 10000)]\<rparr>"

definition token_abc :: outcome where
  "token_abc =
     Resolved \<lparr>status = 200, statusText = ''OK'', data = JObject [(''token'', JString ''abc'')]\<rparr>"

text \<open>
  Answers with status 200 whose body is not of the declared shape: the JSON text
  \<^verbatim>\<open>null\<close>, and the empty object.
\<close>

definition null_body :: outcome where
  "null_body = Resolved \<lparr>status = 200, statusText = ''OK'', data = JNull\<rparr>"

definition empty_object :: outcome where
  "empty_object = Resolved \<lparr>status = 200, statusText = ''OK'', data = JObject []\<rparr>"

text \<open>
  Exchanges that do not succeed: the service is not listening and \<^verbatim>\<open>axios\<close> rejects with
  an \<^verbatim>\<open>AxiosError\<close> that has no response; the service answers 404 and \<^verbatim>\<open>axios\<close> rejects
  with an \<^verbatim>\<open>AxiosError\<close> that holds the response; the service answers 201 and \<^verbatim>\<open>axios\<close>
  resolves.
\<close>

definition connection_refused :: outcome where
  "connection_refused =
     Rejected (AxiosError ''Error'' ''connect ECONNREFUSED 127.0.0.1:8080'' None)"

definition not_found :: outcome where
  "not_found =
     Rejected (AxiosError ''AxiosError'' ''Request failed with status code 404''
                 (Some \<lparr>status = 404, statusText = ''Not Found'', data = JString []\<rparr>))"

definition created_user :: outcome where
  "created_user =
     Resolved \<lparr>status = 201, statusText = ''Created'',
               data = JObject [(''user_id'', JNumber 10000)]\<rparr>"

definition created_token :: outcome where
  "created_token =
     Resolved \<lparr>status = 201, statusText = ''Created'',
               data = JObject [(''token'', JString ''abc'')]\<rparr>"

section \<open>Notions used to state the properties\<close>

text \<open>
  The status code and status text of the HTTP response that an exchange obtained, if it
  obtained one: the response that \<^verbatim>\<open>axios.post\<close> resolved with, or the \<^verbatim>\<open>response\<close> of the
  \<^verbatim>\<open>AxiosError\<close> it rejected with. An exchange that failed in the transport has none.
\<close>

definition response_received :: "outcome \<Rightarrow> (nat \<times> string) option" where
  "response_received out =
     (case out of
        Resolved r \<Rightarrow> Some (status r, statusText r)
      | Rejected (AxiosError nm msg (Some r)) \<Rightarrow> Some (status r, statusText r)
      | Rejected _ \<Rightarrow> None)"

text \<open>Shorthand for the requests that the two methods build.\<close>

abbreviation client_headers :: "SigpairAdmin \<Rightarrow> (string \<times> string) list" where
  "client_headers c \<equiv>
     [(''Content-Type'', ''application/json''), (''Authorization'', ''Bearer '' @ adminToken c)]"

abbreviation createUser_request :: "SigpairAdmin \<Rightarrow> string \<Rightarrow> request" where
  "createUser_request c name \<equiv>
     \<lparr>http_method = POST, url = baseUrl c @ ''/'' @ ''v1/create-user'',
      headers = client_headers c, body = JObject [(''name'', JString name)]\<rparr>"

abbreviation genUserToken_request :: "SigpairAdmin \<Rightarrow> int \<Rightarrow> int \<Rightarrow> request" where
  "genUserToken_request c userId seconds \<equiv>
     \<lparr>http_method = POST, url = baseUrl c @ ''/'' @ ''v1/user-token'',
      headers = client_headers c,
      body = JObject [(''user_id'', JNumber userId), (''lifetime'', JNumber seconds)]\<rparr>"

text \<open>
  A caller that makes any sequence of method calls on one client, each awaited before
  the next, as \<^verbatim>\<open>main\<close> does with two of them.
\<close>

datatype call = CreateUser string | GenUserToken int "int nullish"

fun perform :: "network \<Rightarrow> network \<Rightarrow> call \<Rightarrow> world \<Rightarrow> world" where
  "perform net1 net2 (CreateUser name) w = snd (createUser net1 name w)"
| "perform net1 net2 (GenUserToken userId lifetime) w = snd (genUserToken net2 userId lifetime w)"

section \<open>The methods, unfolded\<close>

lemma handleRequest_eq:
  "handleRequest net u hs payload w =
     (case try_block (net (sent w) \<lparr>http_method = POST, url = u, headers = hs, body = payload\<rparr>) of
        Inr r \<Rightarrow> Inr r
      | Inl error \<Rightarrow> Inl (catch_block error),
      w\<lparr>sent := sent w @ [\<lparr>http_method = POST, url = u, headers = hs, body = payload\<rparr>]\<rparr>)"
  by (simp add: handleRequest_def axios_post_def Let_def split: sum.splits)

lemma createUser_eq:
  "createUser net name w =
     (case try_block (net (sent w) (createUser_request (client w) name)) of
        Inr r \<Rightarrow> get_property r ''user_id''
      | Inl error \<Rightarrow> Inl (catch_block error),
      w\<lparr>sent := sent w @ [createUser_request (client w) name]\<rparr>)"
  by (simp add: createUser_def createPostRequest_def handleRequest_eq Let_def split: sum.splits)

lemma genUserToken_eq:
  "genUserToken net userId lifetime w =
     (case try_block (net (sent w)
             (genUserToken_request (client w) userId (nullish_coalesce lifetime 3600))) of
        Inr r \<Rightarrow> get_property r ''token''
      | Inl error \<Rightarrow> Inl (catch_block error),
      w\<lparr>sent := sent w @
             [genUserToken_request (client w) userId (nullish_coalesce lifetime 3600)]\<rparr>)"
  by (simp add: genUserToken_def createPostRequest_def handleRequest_eq Let_def split: sum.splits)

lemma try_block_Resolved:
  "try_block (Resolved r) =
     (if status r = 200 then Inr (data r)
      else Inl (new_Error (''Failed to make request, error:'' @ statusText r
                  @ '', code: '' @ Number_toString (status r))))"
  by (simp add: try_block_def)

lemma try_block_Rejected: "try_block (Rejected err) = Inl err"
  by (simp add: try_block_def)

lemma try_block_Inr:
  "try_block out = Inr d \<longleftrightarrow> (\<exists>r. out = Resolved r \<and> status r = 200 \<and> data r = d)"
  by (cases out) (auto simp add: try_block_def)

lemma catch_block_new_Error:
  "m \<noteq> [] \<Longrightarrow>
   catch_block (new_Error m) = new_Error (''Failed to make request, error:'' @ ''Error: '' @ m)"
  by (simp add: catch_block_def new_Error_def Error_toString_def)

lemma catch_block_AxiosError_Some:
  "catch_block (AxiosError nm a (Some r)) =
     new_Error (''Failed to make request, error:'' @ statusText r
                  @ '', code: '' @ Number_toString (status r))"
  by (simp add: catch_block_def template_optional_def)

lemma catch_block_AxiosError_None:
  "catch_block (AxiosError nm a None) =
     new_Error ''Failed to make request, error:undefined, code: undefined''"
  by (simp add: catch_block_def template_optional_def)

lemma catch_block_prefix:
  "\<exists>m. catch_block err = JsError ''Error'' m \<and> prefix ''Failed to make request, error:'' m"
  by (cases err)
     (auto simp add: catch_block_def new_Error_def simp del: append.simps toString.simps)

lemma handler_Resolved_non_200:
  assumes "status r \<noteq> 200"
  shows "(case try_block (Resolved r) of
            Inr x \<Rightarrow> f x
          | Inl error \<Rightarrow> Inl (catch_block error)) =
         Inl (JsError ''Error'' (''Failed to make request, error:'' @ ''Error: ''
                @ ''Failed to make request, error:'' @ statusText r
                @ '', code: '' @ Number_toString (status r)))"
proof -
  have t: "try_block (Resolved r) =
             Inl (new_Error (''Failed to make request, error:'' @ statusText r
                    @ '', code: '' @ Number_toString (status r)))"
    using assms by (simp add: try_block_Resolved)
  have ne: "''Failed to make request, error:'' @ statusText r
              @ '', code: '' @ Number_toString (status r) \<noteq> []"
    by simp
  have c: "catch_block (new_Error (''Failed to make request, error:'' @ statusText r
                    @ '', code: '' @ Number_toString (status r))) =
           JsError ''Error'' (''Failed to make request, error:'' @ ''Error: ''
                @ ''Failed to make request, error:'' @ statusText r
                @ '', code: '' @ Number_toString (status r))"
    by (simp only: catch_block_new_Error [OF ne]) (simp only: new_Error_def)
  show ?thesis
    by (simp only: t sum.case c)
qed

lemma sublist_in_message:
  "sublist t (p @ t @ c @ d)" "sublist d (p @ t @ c @ d)"
proof -
  show "sublist t (p @ t @ c @ d)"
    by (rule sublist_appendI)
  have "sublist d ((p @ t @ c) @ d)"
    by (rule sublist_append_leftI)
  then show "sublist d (p @ t @ c @ d)"
    by simp
qed

lemma get_property_Inl:
  "get_property d key = Inl e \<longleftrightarrow>
     (d = JNull \<and> e = cannot_read ''null'' key)
     \<or> (d = JUndefined \<and> e = cannot_read ''undefined'' key)"
  by (cases d) auto

section \<open>Creating a user\<close>

text \<open>
  C4. For every name, \<^verbatim>\<open>createUser(name)\<close> hands exactly one request to \<^verbatim>\<open>axios.post\<close>: a
  POST to the base URL joined with \<^verbatim>\<open>v1/create-user\<close> by a slash, whose body is the object
  with the single field \<^verbatim>\<open>name\<close>. When the exchange resolves with status 200, the outcome
  of the call is that of reading \<^verbatim>\<open>user_id\<close> from the decoded body; so when that body is
  an object with a \<^verbatim>\<open>user_id\<close>, the call returns its value as it is.
\<close>

theorem createUser_issues_one_post:
  "\<exists>req. sent (snd (createUser net name w)) = sent w @ [req]
      \<and> http_method req = POST
      \<and> url req = baseUrl (client w) @ ''/'' @ ''v1/create-user''
      \<and> body req = JObject [(''name'', JString name)]
      \<and> (\<forall>r. net (sent w) req = Resolved r \<and> status r = 200
            \<longrightarrow> fst (createUser net name w) = get_property (data r) ''user_id'')
      \<and> (\<forall>r props v. net (sent w) req = Resolved r \<and> status r = 200
              \<and> data r = JObject props \<and> map_of (rev props) ''user_id'' = Some v
            \<longrightarrow> fst (createUser net name w) = Inr v)"
  by (simp add: createUser_eq try_block_Resolved)

theorem createUser_issues_one_post_witness:
  "\<exists>req. sent (snd (createUser (always user_10000) ''John Doe'' main_world)) = [req]
      \<and> http_method req = POST
      \<and> url req = ''http://localhost:8080/v1/create-user''
      \<and> body req = JObject [(''name'', JString ''John Doe'')]
      \<and> fst (createUser (always user_10000) ''John Doe'' main_world) = Inr (JNumber 10000)"
proof -
  from createUser_issues_one_post [of "always user_10000" "''John Doe''" main_world]
  obtain req where
    s: "sent (snd (createUser (always user_10000) ''John Doe'' main_world))
          = sent main_world @ [req]" and
    m: "http_method req = POST" and
    u: "url req = baseUrl (client main_world) @ ''/'' @ ''v1/create-user''" and
    b: "body req = JObject [(''name'', JString ''John Doe'')]" and
    r: "\<forall>r props v. always user_10000 (sent main_world) req = Resolved r \<and> status r = 200
            \<and> data r = JObject props \<and> map_of (rev props) ''user_id'' = Some v
          \<longrightarrow> fst (createUser (always user_10000) ''John Doe'' main_world) = Inr v"
    by blast
  have "always user_10000 (sent main_world) req
          = Resolved \<lparr>status = 200, statusText = ''OK'',
                      data = JObject [(''user_id'', JNumber 10000)]\<rparr>
        \<and> status \<lparr>status = 200, statusText = ''OK'',
                   data = JObject [(''user_id'', JNumber 10000)]\<rparr> = 200
        \<and> data \<lparr>status = 200, statusText = ''OK'',
                 data = JObject [(''user_id'', JNumber 10000)]\<rparr>
            = JObject [(''user_id'', JNumber 10000)]
        \<and> map_of (rev [(''user_id'', JNumber 10000)]) ''user_id'' = Some (JNumber 10000)"
    by (simp add: always_def user_10000_def)
  with r have v: "fst (createUser (always user_10000) ''John Doe'' main_world)
                    = Inr (JNumber 10000)"
    by blast
  from s have s': "sent (snd (createUser (always user_10000) ''John Doe'' main_world)) = [req]"
    by (simp add: main_world_def)
  from u have u': "url req = ''http://localhost:8080/v1/create-user''"
    by (simp add: main_world_def constructor_def)
  from s' m u' b v show ?thesis
    by blast
qed

section \<open>Generating a user token\<close>

text \<open>
  C5. For every user id and every lifetime that the caller supplies, \<^verbatim>\<open>genUserToken\<close> hands
  exactly one request to \<^verbatim>\<open>axios.post\<close>: a POST to the base URL joined with
  \<^verbatim>\<open>v1/user-token\<close> by a slash, whose body is the object with the fields \<^verbatim>\<open>user_id\<close> and
  \<^verbatim>\<open>lifetime\<close> holding the two arguments. When the exchange resolves with status 200, the
  outcome of the call is that of reading \<^verbatim>\<open>token\<close> from the decoded body; so when that
  body is an object with a \<^verbatim>\<open>token\<close>, the call returns its value.
\<close>

theorem genUserToken_issues_one_post:
  "\<exists>req. sent (snd (genUserToken net userId (Value seconds) w)) = sent w @ [req]
      \<and> http_method req = POST
      \<and> url req = baseUrl (client w) @ ''/'' @ ''v1/user-token''
      \<and> body req = JObject [(''user_id'', JNumber userId), (''lifetime'', JNumber seconds)]
      \<and> (\<forall>r. net (sent w) req = Resolved r \<and> status r = 200
            \<longrightarrow> fst (genUserToken net userId (Value seconds) w)
                  = get_property (data r) ''token'')
      \<and> (\<forall>r props v. net (sent w) req = Resolved r \<and> status r = 200
              \<and> data r = JObject props \<and> map_of (rev props) ''token'' = Some v
            \<longrightarrow> fst (genUserToken net userId (Value seconds) w) = Inr v)"
  by (simp add: genUserToken_eq try_block_Resolved nullish_coalesce_def)

theorem genUserToken_issues_one_post_witness:
  "\<exists>req. sent (snd (genUserToken (always token_abc) 10000 (Value 3600) main_world)) = [req]
      \<and> http_method req = POST
      \<and> url req = ''http://localhost:8080/v1/user-token''
      \<and> body req = JObject [(''user_id'', JNumber 10000), (''lifetime'', JNumber 3600)]
      \<and> fst (genUserToken (always token_abc) 10000 (Value 3600) main_world)
          = Inr (JString ''abc'')"
proof -
  from genUserToken_issues_one_post [of "always token_abc" 10000 3600 main_world]
  obtain req where
    s: "sent (snd (genUserToken (always token_abc) 10000 (Value 3600) main_world))
          = sent main_world @ [req]" and
    m: "http_method req = POST" and
    u: "url req = baseUrl (client main_world) @ ''/'' @ ''v1/user-token''" and
    b: "body req = JObject [(''user_id'', JNumber 10000), (''lifetime'', JNumber 3600)]" and
    r: "\<forall>r props v. always token_abc (sent main_world) req = Resolved r \<and> status r = 200
            \<and> data r = JObject props \<and> map_of (rev props) ''token'' = Some v
          \<longrightarrow> fst (genUserToken (always token_abc) 10000 (Value 3600) main_world) = Inr v"
    by blast
  have "always token_abc (sent main_world) req
          = Resolved \<lparr>status = 200, statusText = ''OK'',
                      data = JObject [(''token'', JString ''abc'')]\<rparr>
        \<and> status \<lparr>status = 200, statusText = ''OK'',
                   data = JObject [(''token'', JString ''abc'')]\<rparr> = 200
        \<and> data \<lparr>status = 200, statusText = ''OK'',
                 data = JObject [(''token'', JString ''abc'')]\<rparr>
            = JObject [(''token'', JString ''abc'')]
        \<and> map_of (rev [(''token'', JString ''abc'')]) ''token'' = Some (JString ''abc'')"
    by (simp add: always_def token_abc_def)
  with r have v: "fst (genUserToken (always token_abc) 10000 (Value 3600) main_world)
                    = Inr (JString ''abc'')"
    by blast
  from s have s': "sent (snd (genUserToken (always token_abc) 10000 (Value 3600) main_world))
                     = [req]"
    by (simp add: main_world_def)
  from u have u': "url req = ''http://localhost:8080/v1/user-token''"
    by (simp add: main_world_def constructor_def)
  from s' m u' b v show ?thesis
    by blast
qed

text \<open>
  C6. When the caller omits the lifetime, the body handed to \<^verbatim>\<open>axios.post\<close> has the field
  \<^verbatim>\<open>lifetime\<close> with the value 3600: the client fills the default in, the field is not left
  out of the payload.
\<close>

theorem omitted_lifetime_sends_3600:
  "map body (sent (snd (genUserToken net userId Undefined w))) =
     map body (sent w) @ [JObject [(''user_id'', JNumber userId), (''lifetime'', JNumber 3600)]]"
  by (simp add: genUserToken_eq nullish_coalesce_def)

text \<open>
  C10. The default of 3600 seconds replaces the lifetime argument when that is
  \<^verbatim>\<open>undefined\<close> (also: omitted) or \<^verbatim>\<open>null\<close>, and only then: any number that the caller
  passes, 0 among them, is the \<^verbatim>\<open>lifetime\<close> field of the body as it was passed.
\<close>

theorem default_lifetime_only_when_nullish:
  "map body (sent (snd (genUserToken net userId Undefined w))) =
     map body (sent w) @ [JObject [(''user_id'', JNumber userId), (''lifetime'', JNumber 3600)]]
   \<and> map body (sent (snd (genUserToken net userId Null w))) =
     map body (sent w) @ [JObject [(''user_id'', JNumber userId), (''lifetime'', JNumber 3600)]]
   \<and> map body (sent (snd (genUserToken net userId (Value v) w))) =
     map body (sent w) @ [JObject [(''user_id'', JNumber userId), (''lifetime'', JNumber v)]]
   \<and> map body (sent (snd (genUserToken net userId (Value 0) w))) =
     map body (sent w) @ [JObject [(''user_id'', JNumber userId), (''lifetime'', JNumber 0)]]"
  by (simp add: genUserToken_eq nullish_coalesce_def)

section \<open>The client object and the headers of its requests\<close>

lemma perform_step:
  "client (perform net1 net2 c w) = client w
   \<and> (\<exists>req. sent (perform net1 net2 c w) = sent w @ [req]
          \<and> headers req = client_headers (client w))"
  by (cases c) (simp_all add: createUser_eq genUserToken_eq)

lemma fold_perform:
  "client (fold (perform net1 net2) cs w) = client w
   \<and> (\<exists>reqs. sent (fold (perform net1 net2) cs w) = sent w @ reqs
          \<and> length reqs = length cs
          \<and> (\<forall>req \<in> set reqs. headers req = client_headers (client w)))"
proof (induction cs arbitrary: w)
  case Nil
  show ?case by simp
next
  case (Cons c cs)
  from perform_step [of net1 net2 c w] obtain req where
    c1: "client (perform net1 net2 c w) = client w" and
    s1: "sent (perform net1 net2 c w) = sent w @ [req]" and
    h1: "headers req = client_headers (client w)"
    by blast
  from Cons.IH [of "perform net1 net2 c w"] obtain reqs where
    c2: "client (fold (perform net1 net2) cs (perform net1 net2 c w)) = client (perform net1 net2 c w)" and
    s2: "sent (fold (perform net1 net2) cs (perform net1 net2 c w)) = sent (perform net1 net2 c w) @ reqs" and
    l2: "length reqs = length cs" and
    h2: "\<forall>r \<in> set reqs. headers r = client_headers (client (perform net1 net2 c w))"
    by blast
  have "sent (fold (perform net1 net2) (c # cs) w) = sent w @ (req # reqs)"
    using s1 s2 by simp
  moreover have "length (req # reqs) = length (c # cs)"
    using l2 by simp
  moreover have "\<forall>r \<in> set (req # reqs). headers r = client_headers (client w)"
    using h1 h2 c1 by simp
  moreover have "client (fold (perform net1 net2) (c # cs) w) = client w"
    using c1 c2 by simp
  ultimately show ?case
    by blast
qed

text \<open>
  C7. No method assigns to a field of the client: after any sequence of \<^verbatim>\<open>createUser\<close>
  and \<^verbatim>\<open>genUserToken\<close> calls on a client, its base URL and admin token are those given to
  the constructor. Each call hands one request to \<^verbatim>\<open>axios.post\<close>, and every one of these
  requests has the headers \<^verbatim>\<open>Content-Type: application/json\<close> and
  \<^verbatim>\<open>Authorization: Bearer\<close> followed by the token exactly as it was given to the
  constructor, the same on every call.
\<close>

theorem client_fixed_and_headers_on_every_request:
  "client (fold (perform net1 net2) cs \<lparr>client = constructor base credential, sent = []\<rparr>)
     = \<lparr>baseUrl = base, adminToken = credential\<rparr>
   \<and> length (sent (fold (perform net1 net2) cs
        \<lparr>client = constructor base credential, sent = []\<rparr>)) = length cs
   \<and> (\<forall>req \<in> set (sent (fold (perform net1 net2) cs
                       \<lparr>client = constructor base credential, sent = []\<rparr>)).
         headers req = [(''Content-Type'', ''application/json''),
                        (''Authorization'', ''Bearer '' @ credential)])"
  using fold_perform [of net1 net2 cs "\<lparr>client = constructor base credential, sent = []\<rparr>"]
  by (auto simp add: constructor_def)


theorem client_fixed_and_headers_on_every_request_witness:
  "client (fold (perform (always user_10000) (always token_abc))
             [CreateUser ''John Doe'', GenUserToken 10000 (Value 3600)] main_world)
     = client main_world
   \<and> map headers (sent (fold (perform (always user_10000) (always token_abc))
             [CreateUser ''John Doe'', GenUserToken 10000 (Value 3600)] main_world))
     = [[(''Content-Type'', ''application/json''),
         (''Authorization'',
          ''Bearer 1ec3804afc23258f767b9d38825dc7ab0a2ea44ef4adf3254e4d7c6059c3b55a'')],
        [(''Content-Type'', ''application/json''),
         (''Authorization'',
          ''Bearer 1ec3804afc23258f767b9d38825dc7ab0a2ea44ef4adf3254e4d7c6059c3b55a'')]]"
proof -
  let ?w = "fold (perform (always user_10000) (always token_abc))
              [CreateUser ''John Doe'', GenUserToken 10000 (Value 3600)] main_world"
  let ?hs = "[(''Content-Type'', ''application/json''),
              (''Authorization'',
               ''Bearer 1ec3804afc23258f767b9d38825dc7ab0a2ea44ef4adf3254e4d7c6059c3b55a'')]"
  from client_fixed_and_headers_on_every_request
    [of "always user_10000" "always token_abc"
        "[CreateUser ''John Doe'', GenUserToken 10000 (Value 3600)]"
        "''http://localhost:8080''"
        "''1ec3804afc23258f767b9d38825dc7ab0a2ea44ef4adf3254e4d7c6059c3b55a''"]
  have c: "client ?w = client main_world"
    and l: "length (sent ?w) = 2"
    and h: "\<forall>req \<in> set (sent ?w). headers req = ?hs"
    by (simp_all add: main_world_def constructor_def)
  from l obtain r1 r2 where s: "sent ?w = [r1, r2]"
    by (cases "sent ?w"; cases "tl (sent ?w)") auto
  from h s have "headers r1 = ?hs" "headers r2 = ?hs"
    by simp_all
  with s have "map headers (sent ?w) = [?hs, ?hs]"
    by simp
  with c show ?thesis
    by blast
qed

section \<open>Failed exchanges\<close>

text \<open>
  C9. When \<^verbatim>\<open>axios.post\<close> resolves (with the default settings: a status from 200 to 299)
  and the status is not 200, the call fails all the same. The \<^verbatim>\<open>Error\<close> that the status
  check throws inside \<^verbatim>\<open>try\<close> is caught by the \<^verbatim>\<open>catch\<close> of the same statement, is not an
  \<^verbatim>\<open>AxiosError\<close>, and is wrapped again: the message is the prefix, then the text of the
  first error, which is \<^verbatim>\<open>Error: \<close> and the prefix once more, the status text and the
  status code.
\<close>

theorem resolved_non_200_is_wrapped_twice:
  "(net1 (sent w) (createUser_request (client w) name) = Resolved r1 \<and> status r1 \<noteq> 200
      \<longrightarrow> fst (createUser net1 name w) =
            Inl (JsError ''Error'' (''Failed to make request, error:'' @ ''Error: ''
                   @ ''Failed to make request, error:'' @ statusText r1
                   @ '', code: '' @ Number_toString (status r1))))
   \<and> (net2 (sent w) (genUserToken_request (client w) userId (nullish_coalesce lifetime 3600))
          = Resolved r2 \<and> status r2 \<noteq> 200
      \<longrightarrow> fst (genUserToken net2 userId lifetime w) =
            Inl (JsError ''Error'' (''Failed to make request, error:'' @ ''Error: ''
                   @ ''Failed to make request, error:'' @ statusText r2
                   @ '', code: '' @ Number_toString (status r2))))"
proof (intro conjI impI)
  assume "net1 (sent w) (createUser_request (client w) name) = Resolved r1 \<and> status r1 \<noteq> 200"
  then have out: "net1 (sent w) (createUser_request (client w) name) = Resolved r1"
    and ne: "status r1 \<noteq> 200"
    by simp_all
  show "fst (createUser net1 name w) =
            Inl (JsError ''Error'' (''Failed to make request, error:'' @ ''Error: ''
                   @ ''Failed to make request, error:'' @ statusText r1
                   @ '', code: '' @ Number_toString (status r1)))"
    by (simp only: createUser_eq fst_conv out handler_Resolved_non_200 [OF ne])
next
  assume "net2 (sent w) (genUserToken_request (client w) userId (nullish_coalesce lifetime 3600))
          = Resolved r2 \<and> status r2 \<noteq> 200"
  then have out: "net2 (sent w)
        (genUserToken_request (client w) userId (nullish_coalesce lifetime 3600)) = Resolved r2"
    and ne: "status r2 \<noteq> 200"
    by simp_all
  show "fst (genUserToken net2 userId lifetime w) =
            Inl (JsError ''Error'' (''Failed to make request, error:'' @ ''Error: ''
                   @ ''Failed to make request, error:'' @ statusText r2
                   @ '', code: '' @ Number_toString (status r2)))"
    by (simp only: genUserToken_eq fst_conv out handler_Resolved_non_200 [OF ne])
qed

theorem resolved_non_200_is_wrapped_twice_witness:
  "fst (createUser (always created_user) ''John Doe'' main_world) =
     Inl (JsError ''Error''
       ''Failed to make request, error:Error: Failed to make request, error:Created, code: 201'')
   \<and> fst (genUserToken (always created_token) 10000 (Value 3600) main_world) =
     Inl (JsError ''Error''
       ''Failed to make request, error:Error: Failed to make request, error:Created, code: 201'')"
proof -
  have a: "always created_user (sent main_world) (createUser_request (client main_world) ''John Doe'')
             = Resolved \<lparr>status = 201, statusText = ''Created'', data = JObject [(''user_id'', JNumber 10000)]\<rparr>
           \<and> status \<lparr>status = 201, statusText = ''Created'', data = JObject [(''user_id'', JNumber 10000)]\<rparr> \<noteq> 200"
    by (simp add: always_def created_user_def)
  have b: "always created_token (sent main_world)
             (genUserToken_request (client main_world) 10000 (nullish_coalesce (Value 3600) 3600))
             = Resolved \<lparr>status = 201, statusText = ''Created'', data = JObject [(''token'', JString ''abc'')]\<rparr>
           \<and> status \<lparr>status = 201, statusText = ''Created'', data = JObject [(''token'', JString ''abc'')]\<rparr> \<noteq> 200"
    by (simp add: always_def created_token_def)
  from resolved_non_200_is_wrapped_twice
    [of "always created_user" main_world "''John Doe''"
        "\<lparr>status = 201, statusText = ''Created'', data = JObject [(''user_id'', JNumber 10000)]\<rparr>"
        "always created_token" 10000 "Value 3600"
        "\<lparr>status = 201, statusText = ''Created'', data = JObject [(''token'', JString ''abc'')]\<rparr>"] a b
  show ?thesis
    by (simp add: Number_toString_def digits.simps)
qed

lemma received_message:
  assumes "response_received out = Some (code, phrase)" and "code \<noteq> 200"
  shows "\<exists>m. (case try_block out of Inr x \<Rightarrow> f x | Inl error \<Rightarrow> Inl (catch_block error))
               = Inl (JsError ''Error'' m)
             \<and> sublist (Number_toString code) m \<and> sublist phrase m"
proof (cases out)
  case (Resolved r)
  with assms have r: "status r = code" "statusText r = phrase" "status r \<noteq> 200"
    by (simp_all add: response_received_def)
  have "sublist phrase ((''Failed to make request, error:'' @ ''Error: ''
            @ ''Failed to make request, error:'') @ phrase @ '', code: '' @ Number_toString code)"
    and "sublist (Number_toString code) ((''Failed to make request, error:'' @ ''Error: ''
            @ ''Failed to make request, error:'') @ phrase @ '', code: '' @ Number_toString code)"
    by (rule sublist_in_message)+
  then show ?thesis
    unfolding Resolved handler_Resolved_non_200 [OF r(3)] r(1) r(2)
    by (simp only: append_assoc) blast
next
  case (Rejected err)
  show ?thesis
  proof (cases err)
    case (AxiosError nm a resp)
    with Rejected assms obtain r where
      r: "resp = Some r" "status r = code" "statusText r = phrase"
      by (cases resp) (simp_all add: response_received_def)
    have "sublist phrase (''Failed to make request, error:'' @ phrase @ '', code: ''
              @ Number_toString code)"
      and "sublist (Number_toString code) (''Failed to make request, error:'' @ phrase
              @ '', code: '' @ Number_toString code)"
      by (rule sublist_in_message)+
    then show ?thesis
      unfolding Rejected AxiosError r(1) try_block_Rejected sum.case
        catch_block_AxiosError_Some r(2) r(3) new_Error_def
      by blast
  next
    case (JsError nm msg)
    with Rejected assms show ?thesis
      by (simp add: response_received_def)
  qed
qed

text \<open>
  C2. When an exchange of \<^verbatim>\<open>createUser\<close> or \<^verbatim>\<open>genUserToken\<close> obtains an HTTP response
  whose status is not 200, whether \<^verbatim>\<open>axios\<close> resolves with it or rejects with an
  \<^verbatim>\<open>AxiosError\<close> that holds it, the call returns no value: it fails with an \<^verbatim>\<open>Error\<close> whose
  message contains the status code in decimal and the status text of that response.
\<close>

theorem non_200_response_fails_with_status:
  "(response_received (net1 (sent w) (createUser_request (client w) name)) = Some (code, phrase)
      \<and> code \<noteq> 200
      \<longrightarrow> (\<exists>m. fst (createUser net1 name w) = Inl (JsError ''Error'' m)
              \<and> sublist (Number_toString code) m \<and> sublist phrase m))
   \<and> (response_received
        (net2 (sent w) (genUserToken_request (client w) userId (nullish_coalesce lifetime 3600)))
        = Some (code, phrase)
      \<and> code \<noteq> 200
      \<longrightarrow> (\<exists>m. fst (genUserToken net2 userId lifetime w) = Inl (JsError ''Error'' m)
              \<and> sublist (Number_toString code) m \<and> sublist phrase m))"
  using received_message [of "net1 (sent w) (createUser_request (client w) name)" code phrase "\<lambda>d. get_property d ''user_id''"]
    received_message
      [of "net2 (sent w) (genUserToken_request (client w) userId (nullish_coalesce lifetime 3600))"
          code phrase "\<lambda>d. get_property d ''token''"]
  by (simp only: createUser_eq genUserToken_eq fst_conv) blast

theorem non_200_response_fails_with_status_witness:
  "response_received (always not_found (sent main_world)
       (createUser_request (client main_world) ''John Doe'')) = Some (404, ''Not Found'')
   \<and> (404 :: nat) \<noteq> 200
   \<and> (\<exists>m. fst (createUser (always not_found) ''John Doe'' main_world) = Inl (JsError ''Error'' m)
          \<and> sublist ''404'' m \<and> sublist ''Not Found'' m)
   \<and> response_received (always created_token (sent main_world)
       (genUserToken_request (client main_world) 10000 (nullish_coalesce Undefined 3600)))
       = Some (201, ''Created'')
   \<and> (201 :: nat) \<noteq> 200
   \<and> (\<exists>m. fst (genUserToken (always created_token) 10000 Undefined main_world)
            = Inl (JsError ''Error'' m)
          \<and> sublist ''201'' m \<and> sublist ''Created'' m)"
proof -
  have a: "response_received (always not_found (sent main_world)
             (createUser_request (client main_world) ''John Doe'')) = Some (404, ''Not Found'')"
    by (simp add: always_def not_found_def response_received_def)
  have b: "response_received (always created_token (sent main_world)
             (genUserToken_request (client main_world) 10000 (nullish_coalesce Undefined 3600)))
             = Some (201, ''Created'')"
    by (simp add: always_def created_token_def response_received_def)
  have d: "Number_toString 404 = ''404''" "Number_toString 201 = ''201''"
    by (simp_all add: Number_toString_def digits.simps)
  have n: "(404 :: nat) \<noteq> 200" "(201 :: nat) \<noteq> 200"
    by simp_all
  from non_200_response_fails_with_status
    [of "always not_found" main_world "''John Doe''" 404 "''Not Found''"] a n(1)
  have "\<exists>m. fst (createUser (always not_found) ''John Doe'' main_world) = Inl (JsError ''Error'' m)
          \<and> sublist (Number_toString 404) m \<and> sublist ''Not Found'' m"
    by blast
  then have c1: "\<exists>m. fst (createUser (always not_found) ''John Doe'' main_world)
                   = Inl (JsError ''Error'' m)
                 \<and> sublist ''404'' m \<and> sublist ''Not Found'' m"
    by (simp only: d)
  from non_200_response_fails_with_status
    [of _ main_world _ 201 "''Created''" "always created_token" 10000 Undefined] b n(2)
  have "\<exists>m. fst (genUserToken (always created_token) 10000 Undefined main_world)
            = Inl (JsError ''Error'' m)
          \<and> sublist (Number_toString 201) m \<and> sublist ''Created'' m"
    by blast
  then have c2: "\<exists>m. fst (genUserToken (always created_token) 10000 Undefined main_world)
                   = Inl (JsError ''Error'' m)
                 \<and> sublist ''201'' m \<and> sublist ''Created'' m"
    by (simp only: d)
  from a b n c1 c2 show ?thesis
    by blast
qed

text \<open>
  C1. A transport failure that \<^verbatim>\<open>axios\<close> reports, such as a refused connection, is an
  \<^verbatim>\<open>AxiosError\<close> without a response. The \<^verbatim>\<open>catch\<close> block takes its first branch for it and
  renders the missing status text and status code as \<^verbatim>\<open>undefined\<close>: both methods fail with
  the message \<^verbatim>\<open>Failed to make request, error:undefined, code: undefined\<close>, which contains
  neither the message of the underlying error nor its string form. Only the second
  branch, for errors that are not an \<^verbatim>\<open>AxiosError\<close>, puts the string form of the error into
  the message.
\<close>

theorem transport_failure_message_is_undefined:
  "response_received connection_refused = None
   \<and> fst (createUser (always connection_refused) ''John Doe'' main_world)
       = Inl (JsError ''Error'' ''Failed to make request, error:undefined, code: undefined'')
   \<and> fst (genUserToken (always connection_refused) 10000 (Value 3600) main_world)
       = Inl (JsError ''Error'' ''Failed to make request, error:undefined, code: undefined'')
   \<and> \<not> sublist ''connect ECONNREFUSED 127.0.0.1:8080''
         ''Failed to make request, error:undefined, code: undefined''
   \<and> toString (AxiosError ''Error'' ''connect ECONNREFUSED 127.0.0.1:8080'' None)
       = ''Error: connect ECONNREFUSED 127.0.0.1:8080''
   \<and> \<not> sublist (toString (AxiosError ''Error'' ''connect ECONNREFUSED 127.0.0.1:8080'' None))
         ''Failed to make request, error:undefined, code: undefined''"
proof (intro conjI)
  show "response_received connection_refused = None"
    by (simp add: connection_refused_def response_received_def)
  show "fst (createUser (always connection_refused) ''John Doe'' main_world)
       = Inl (JsError ''Error'' ''Failed to make request, error:undefined, code: undefined'')"
    by (simp add: createUser_eq always_def connection_refused_def try_block_Rejected
          catch_block_AxiosError_None new_Error_def)
  show "fst (genUserToken (always connection_refused) 10000 (Value 3600) main_world)
       = Inl (JsError ''Error'' ''Failed to make request, error:undefined, code: undefined'')"
    by (simp add: genUserToken_eq always_def connection_refused_def try_block_Rejected
          catch_block_AxiosError_None new_Error_def)
  show "\<not> sublist ''connect ECONNREFUSED 127.0.0.1:8080''
         ''Failed to make request, error:undefined, code: undefined''"
    by (simp add: sublist_code(3))
  show "toString (AxiosError ''Error'' ''connect ECONNREFUSED 127.0.0.1:8080'' None)
       = ''Error: connect ECONNREFUSED 127.0.0.1:8080''"
    by (simp add: Error_toString_def)
  show "\<not> sublist (toString (AxiosError ''Error'' ''connect ECONNREFUSED 127.0.0.1:8080'' None))
         ''Failed to make request, error:undefined, code: undefined''"
    by (simp add: sublist_code(3) Error_toString_def)
qed

section \<open>Bodies that are not of the declared shape\<close>

text \<open>
  C8, as it is stated, fails. A response with status 200 whose body is \<^verbatim>\<open>null\<close> passes
  through \<^verbatim>\<open>handleRequest\<close>; \<^verbatim>\<open>createUser\<close> then reads \<^verbatim>\<open>user_id\<close> of \<^verbatim>\<open>null\<close>, and the
  \<^verbatim>\<open>TypeError\<close> of that read reaches the caller with a message that does not start with
  \<^verbatim>\<open>Failed to make request, error:\<close>.
\<close>

theorem null_body_error_has_no_prefix:
  "fst (createUser (always null_body) ''John Doe'' main_world)
     = Inl (JsError ''TypeError'' ''Cannot read properties of null (reading 'user_id')'')
   \<and> \<not> prefix ''Failed to make request, error:''
         ''Cannot read properties of null (reading 'user_id')''"
  by (simp add: createUser_eq always_def null_body_def try_block_Resolved cannot_read_def)

text \<open>
  C8, amended. Every error that \<^verbatim>\<open>handleRequest\<close> raises, whatever made the exchange fail
  (a rejection by \<^verbatim>\<open>axios\<close> with or without a response, or a resolved response whose
  status is not 200), is an \<^verbatim>\<open>Error\<close> whose message starts with
  \<^verbatim>\<open>Failed to make request, error:\<close>. An error that \<^verbatim>\<open>createUser\<close> or \<^verbatim>\<open>genUserToken\<close>
  raises is such an error, or else the exchange resolved with status 200 and a body that
  is \<^verbatim>\<open>null\<close> or \<^verbatim>\<open>undefined\<close>, and the error is the \<^verbatim>\<open>TypeError\<close> of reading the field of
  that body.
\<close>

theorem exchange_errors_have_the_prefix:
  "(fst (handleRequest net u hs payload w) = Inl e
      \<longrightarrow> (\<exists>m. e = JsError ''Error'' m \<and> prefix ''Failed to make request, error:'' m))
   \<and> (fst (createUser net1 name w) = Inl e
      \<longrightarrow> (\<exists>m. e = JsError ''Error'' m \<and> prefix ''Failed to make request, error:'' m)
          \<or> (\<exists>r. net1 (sent w) (createUser_request (client w) name) = Resolved r
                 \<and> status r = 200
                 \<and> (data r = JNull \<and> e = cannot_read ''null'' ''user_id''
                     \<or> data r = JUndefined \<and> e = cannot_read ''undefined'' ''user_id'')))
   \<and> (fst (genUserToken net2 userId lifetime w) = Inl e
      \<longrightarrow> (\<exists>m. e = JsError ''Error'' m \<and> prefix ''Failed to make request, error:'' m)
          \<or> (\<exists>r. net2 (sent w)
                   (genUserToken_request (client w) userId (nullish_coalesce lifetime 3600))
                   = Resolved r
                 \<and> status r = 200
                 \<and> (data r = JNull \<and> e = cannot_read ''null'' ''token''
                     \<or> data r = JUndefined \<and> e = cannot_read ''undefined'' ''token'')))"
proof (intro conjI impI)
  assume "fst (handleRequest net u hs payload w) = Inl e"
  then show "\<exists>m. e = JsError ''Error'' m \<and> prefix ''Failed to make request, error:'' m"
    using catch_block_prefix
    by (auto simp add: handleRequest_eq split: sum.splits)
next
  let ?out = "net1 (sent w) (createUser_request (client w) name)"
  assume a: "fst (createUser net1 name w) = Inl e"
  show "(\<exists>m. e = JsError ''Error'' m \<and> prefix ''Failed to make request, error:'' m)
          \<or> (\<exists>r. ?out = Resolved r
                 \<and> status r = 200
                 \<and> (data r = JNull \<and> e = cannot_read ''null'' ''user_id''
                     \<or> data r = JUndefined \<and> e = cannot_read ''undefined'' ''user_id''))"
  proof (cases "try_block ?out")
    case (Inl err)
    with a have "e = catch_block err"
      by (simp add: createUser_eq)
    with catch_block_prefix [of err] show ?thesis
      by simp
  next
    case (Inr d)
    with a have g: "get_property d ''user_id'' = Inl e"
      by (simp add: createUser_eq)
    from Inr obtain r where "?out = Resolved r" "status r = 200" "data r = d"
      by (auto simp add: try_block_Inr)
    with g show ?thesis
      by (simp add: get_property_Inl)
  qed
next
  let ?out = "net2 (sent w)
                (genUserToken_request (client w) userId (nullish_coalesce lifetime 3600))"
  assume a: "fst (genUserToken net2 userId lifetime w) = Inl e"
  show "(\<exists>m. e = JsError ''Error'' m \<and> prefix ''Failed to make request, error:'' m)
          \<or> (\<exists>r. ?out = Resolved r
                 \<and> status r = 200
                 \<and> (data r = JNull \<and> e = cannot_read ''null'' ''token''
                     \<or> data r = JUndefined \<and> e = cannot_read ''undefined'' ''token''))"
  proof (cases "try_block ?out")
    case (Inl err)
    with a have "e = catch_block err"
      by (simp add: genUserToken_eq)
    with catch_block_prefix [of err] show ?thesis
      by simp
  next
    case (Inr d)
    with a have g: "get_property d ''token'' = Inl e"
      by (simp add: genUserToken_eq)
    from Inr obtain r where "?out = Resolved r" "status r = 200" "data r = d"
      by (auto simp add: try_block_Inr)
    with g show ?thesis
      by (simp add: get_property_Inl)
  qed
qed

theorem exchange_errors_have_the_prefix_witness:
  "fst (handleRequest (always connection_refused) ''http://localhost:8080/v1/create-user''
          [] (JObject []) main_world)
     = Inl (JsError ''Error'' ''Failed to make request, error:undefined, code: undefined'')
   \<and> prefix ''Failed to make request, error:''
        ''Failed to make request, error:undefined, code: undefined''
   \<and> fst (createUser (always not_found) ''John Doe'' main_world)
     = Inl (JsError ''Error'' ''Failed to make request, error:Not Found, code: 404'')
   \<and> prefix ''Failed to make request, error:''
        ''Failed to make request, error:Not Found, code: 404''
   \<and> fst (genUserToken (always null_body) 10000 Undefined main_world)
     = Inl (cannot_read ''null'' ''token'')
   \<and> always null_body (sent main_world)
        (genUserToken_request (client main_world) 10000 (nullish_coalesce Undefined 3600))
     = Resolved \<lparr>status = 200, statusText = ''OK'', data = JNull\<rparr>"
proof -
  have a: "fst (handleRequest (always connection_refused)
                  ''http://localhost:8080/v1/create-user'' [] (JObject []) main_world)
             = Inl (JsError ''Error''
                      ''Failed to make request, error:undefined, code: undefined'')"
    by (simp add: handleRequest_eq always_def connection_refused_def try_block_Rejected
          catch_block_AxiosError_None new_Error_def)
  have b: "fst (createUser (always not_found) ''John Doe'' main_world)
             = Inl (JsError ''Error'' ''Failed to make request, error:Not Found, code: 404'')"
    by (simp add: createUser_eq always_def not_found_def try_block_Rejected
          catch_block_AxiosError_Some new_Error_def Number_toString_def digits.simps)
  have c: "fst (genUserToken (always null_body) 10000 Undefined main_world)
             = Inl (cannot_read ''null'' ''token'')"
    by (simp add: genUserToken_eq always_def null_body_def try_block_Resolved)
  have d: "always null_body (sent main_world)
             (genUserToken_request (client main_world) 10000 (nullish_coalesce Undefined 3600))
           = Resolved \<lparr>status = 200, statusText = ''OK'', data = JNull\<rparr>"
    by (simp add: always_def null_body_def)
  have n: "\<And>r. always not_found (sent main_world)
                  (createUser_request (client main_world) ''John Doe'') \<noteq> Resolved r"
    by (simp add: always_def not_found_def)
  from exchange_errors_have_the_prefix
    [of "always connection_refused" "''http://localhost:8080/v1/create-user''" "[]"
        "JObject []" main_world
        "JsError ''Error'' ''Failed to make request, error:undefined, code: undefined''"] a
  have p1: "prefix ''Failed to make request, error:''
              ''Failed to make request, error:undefined, code: undefined''"
    by blast
  from exchange_errors_have_the_prefix
    [of _ _ _ _ main_world
        "JsError ''Error'' ''Failed to make request, error:Not Found, code: 404''"
        "always not_found" "''John Doe''"] b n
  have p2: "prefix ''Failed to make request, error:''
              ''Failed to make request, error:Not Found, code: 404''"
    by blast
  from a b c d p1 p2 show ?thesis
    by blast
qed

text \<open>
  C3, as it is stated, fails in its last part. A response with status 200 whose body is
  the empty object passes through \<^verbatim>\<open>handleRequest\<close>, and the method returns what reading
  the missing field gives: \<^verbatim>\<open>undefined\<close>. The call has not failed, and its result is
  not populated.
\<close>

theorem empty_body_returns_undefined:
  "fst (createUser (always empty_object) ''John Doe'' main_world) = Inr JUndefined
   \<and> fst (genUserToken (always empty_object) 10000 (Value 3600) main_world) = Inr JUndefined"
  by (simp add: createUser_eq genUserToken_eq always_def empty_object_def try_block_Resolved)

text \<open>
  C3, amended. The two methods handle no error themselves: when the \<^verbatim>\<open>handleRequest\<close> that
  a method makes fails, the method fails with that same error, nothing added. When
  \<^verbatim>\<open>handleRequest\<close> returns a body, the outcome of the method is that of reading the field
  (\<^verbatim>\<open>user_id\<close>, \<^verbatim>\<open>token\<close>) of that body, which nothing validates. So a method returns a
  value only after an exchange that resolved with status 200, and the value is what the
  read of the field of that response's body gives.
\<close>

theorem methods_pass_on_executor_result:
  "(handleRequest net1 (baseUrl (client w) @ ''/'' @ ''v1/create-user'')
        (client_headers (client w)) (JObject [(''name'', JString name)]) w = (Inl e, w')
      \<longrightarrow> createUser net1 name w = (Inl e, w'))
   \<and> (handleRequest net1 (baseUrl (client w) @ ''/'' @ ''v1/create-user'')
        (client_headers (client w)) (JObject [(''name'', JString name)]) w = (Inr d, w')
      \<longrightarrow> createUser net1 name w = (get_property d ''user_id'', w'))
   \<and> (handleRequest net2 (baseUrl (client w) @ ''/'' @ ''v1/user-token'')
        (client_headers (client w))
        (JObject [(''user_id'', JNumber userId),
                  (''lifetime'', JNumber (nullish_coalesce lifetime 3600))]) w = (Inl e, w')
      \<longrightarrow> genUserToken net2 userId lifetime w = (Inl e, w'))
   \<and> (handleRequest net2 (baseUrl (client w) @ ''/'' @ ''v1/user-token'')
        (client_headers (client w))
        (JObject [(''user_id'', JNumber userId),
                  (''lifetime'', JNumber (nullish_coalesce lifetime 3600))]) w = (Inr d, w')
      \<longrightarrow> genUserToken net2 userId lifetime w = (get_property d ''token'', w'))
   \<and> (fst (createUser net1 name w) = Inr v
      \<longrightarrow> (\<exists>r. net1 (sent w) (createUser_request (client w) name) = Resolved r
             \<and> status r = 200 \<and> get_property (data r) ''user_id'' = Inr v))
   \<and> (fst (genUserToken net2 userId lifetime w) = Inr v
      \<longrightarrow> (\<exists>r. net2 (sent w)
               (genUserToken_request (client w) userId (nullish_coalesce lifetime 3600))
               = Resolved r
             \<and> status r = 200 \<and> get_property (data r) ''token'' = Inr v))"
proof (intro conjI impI)
  assume "handleRequest net1 (baseUrl (client w) @ ''/'' @ ''v1/create-user'')
        (client_headers (client w)) (JObject [(''name'', JString name)]) w = (Inl e, w')"
  then show "createUser net1 name w = (Inl e, w')"
    by (auto simp add: createUser_eq handleRequest_eq split: sum.splits)
next
  assume "handleRequest net1 (baseUrl (client w) @ ''/'' @ ''v1/create-user'')
        (client_headers (client w)) (JObject [(''name'', JString name)]) w = (Inr d, w')"
  then show "createUser net1 name w = (get_property d ''user_id'', w')"
    by (auto simp add: createUser_eq handleRequest_eq split: sum.splits)
next
  assume "handleRequest net2 (baseUrl (client w) @ ''/'' @ ''v1/user-token'')
        (client_headers (client w))
        (JObject [(''user_id'', JNumber userId),
                  (''lifetime'', JNumber (nullish_coalesce lifetime 3600))]) w = (Inl e, w')"
  then show "genUserToken net2 userId lifetime w = (Inl e, w')"
    by (auto simp add: genUserToken_eq handleRequest_eq split: sum.splits)
next
  assume "handleRequest net2 (baseUrl (client w) @ ''/'' @ ''v1/user-token'')
        (client_headers (client w))
        (JObject [(''user_id'', JNumber userId),
                  (''lifetime'', JNumber (nullish_coalesce lifetime 3600))]) w = (Inr d, w')"
  then show "genUserToken net2 userId lifetime w = (get_property d ''token'', w')"
    by (auto simp add: genUserToken_eq handleRequest_eq split: sum.splits)
next
  let ?out = "net1 (sent w) (createUser_request (client w) name)"
  assume a: "fst (createUser net1 name w) = Inr v"
  then obtain d where t: "try_block ?out = Inr d" and g: "get_property d ''user_id'' = Inr v"
    by (cases "try_block ?out") (simp_all add: createUser_eq)
  from t obtain r where "?out = Resolved r" "status r = 200" "data r = d"
    by (auto simp add: try_block_Inr)
  with g show "\<exists>r. ?out = Resolved r \<and> status r = 200
                 \<and> get_property (data r) ''user_id'' = Inr v"
    by blast
next
  let ?out = "net2 (sent w)
                (genUserToken_request (client w) userId (nullish_coalesce lifetime 3600))"
  assume a: "fst (genUserToken net2 userId lifetime w) = Inr v"
  then obtain d where t: "try_block ?out = Inr d" and g: "get_property d ''token'' = Inr v"
    by (cases "try_block ?out") (simp_all add: genUserToken_eq)
  from t obtain r where "?out = Resolved r" "status r = 200" "data r = d"
    by (auto simp add: try_block_Inr)
  with g show "\<exists>r. ?out = Resolved r \<and> status r = 200
                 \<and> get_property (data r) ''token'' = Inr v"
    by blast
qed

theorem methods_pass_on_executor_result_witness:
  "handleRequest (always not_found) (baseUrl (client main_world) @ ''/'' @ ''v1/create-user'')
       (client_headers (client main_world)) (JObject [(''name'', JString ''John Doe'')])
       main_world
     = (Inl (JsError ''Error'' ''Failed to make request, error:Not Found, code: 404''),
        main_world\<lparr>sent := [createUser_request (client main_world) ''John Doe'']\<rparr>)
   \<and> createUser (always not_found) ''John Doe'' main_world
     = (Inl (JsError ''Error'' ''Failed to make request, error:Not Found, code: 404''),
        main_world\<lparr>sent := [createUser_request (client main_world) ''John Doe'']\<rparr>)
   \<and> handleRequest (always empty_object) (baseUrl (client main_world) @ ''/'' @ ''v1/user-token'')
       (client_headers (client main_world))
       (JObject [(''user_id'', JNumber 10000),
                 (''lifetime'', JNumber (nullish_coalesce Undefined 3600))])
       main_world
     = (Inr (JObject []),
        main_world\<lparr>sent := [genUserToken_request (client main_world) 10000 3600]\<rparr>)
   \<and> genUserToken (always empty_object) 10000 Undefined main_world
     = (Inr JUndefined,
        main_world\<lparr>sent := [genUserToken_request (client main_world) 10000 3600]\<rparr>)
   \<and> fst (createUser (always user_10000) ''John Doe'' main_world) = Inr (JNumber 10000)
   \<and> (\<exists>r. always user_10000 (sent main_world)
             (createUser_request (client main_world) ''John Doe'') = Resolved r
          \<and> status r = 200 \<and> get_property (data r) ''user_id'' = Inr (JNumber 10000))"
proof -
  have h: "handleRequest (always not_found)
             (baseUrl (client main_world) @ ''/'' @ ''v1/create-user'')
             (client_headers (client main_world)) (JObject [(''name'', JString ''John Doe'')])
             main_world
           = (Inl (JsError ''Error'' ''Failed to make request, error:Not Found, code: 404''),
              main_world\<lparr>sent := [createUser_request (client main_world) ''John Doe'']\<rparr>)"
    by (simp add: handleRequest_eq always_def not_found_def try_block_Rejected new_Error_def
          catch_block_AxiosError_Some Number_toString_def digits.simps main_world_def)
  have k: "handleRequest (always empty_object)
             (baseUrl (client main_world) @ ''/'' @ ''v1/user-token'')
             (client_headers (client main_world))
             (JObject [(''user_id'', JNumber 10000),
                       (''lifetime'', JNumber (nullish_coalesce Undefined 3600))])
             main_world
           = (Inr (JObject []),
              main_world\<lparr>sent := [genUserToken_request (client main_world) 10000 3600]\<rparr>)"
    by (simp add: handleRequest_eq always_def empty_object_def try_block_Resolved
          nullish_coalesce_def main_world_def)
  have g: "get_property (JObject []) ''token'' = Inr JUndefined"
    by simp
  have v: "fst (createUser (always user_10000) ''John Doe'' main_world) = Inr (JNumber 10000)"
    by (simp add: createUser_eq always_def user_10000_def try_block_Resolved)
  note t = methods_pass_on_executor_result
    [of "always not_found" main_world "''John Doe''"
        "JsError ''Error'' ''Failed to make request, error:Not Found, code: 404''"
        "main_world\<lparr>sent := [createUser_request (client main_world) ''John Doe'']\<rparr>"]
  from t h
  have c1: "createUser (always not_found) ''John Doe'' main_world
     = (Inl (JsError ''Error'' ''Failed to make request, error:Not Found, code: 404''),
        main_world\<lparr>sent := [createUser_request (client main_world) ''John Doe'']\<rparr>)"
    by blast
  from methods_pass_on_executor_result
    [of _ main_world _ _
        "main_world\<lparr>sent := [genUserToken_request (client main_world) 10000 3600]\<rparr>"
        "JObject []" "always empty_object" 10000 Undefined] k
  have "genUserToken (always empty_object) 10000 Undefined main_world
     = (get_property (JObject []) ''token'',
        main_world\<lparr>sent := [genUserToken_request (client main_world) 10000 3600]\<rparr>)"
    by blast
  with g have c2: "genUserToken (always empty_object) 10000 Undefined main_world
     = (Inr JUndefined,
        main_world\<lparr>sent := [genUserToken_request (client main_world) 10000 3600]\<rparr>)"
    by simp
  from methods_pass_on_executor_result
    [of "always user_10000" main_world "''John Doe''" _ _ _ _ _ _ "JNumber 10000"] v
  have c3: "\<exists>r. always user_10000 (sent main_world)
             (createUser_request (client main_world) ''John Doe'') = Resolved r
          \<and> status r = 200 \<and> get_property (data r) ''user_id'' = Inr (JNumber 10000)"
    by blast
  from h c1 k c2 v c3 show ?thesis
    by blast
qed

end
